theory Spec2Isabelle
  imports Main "HOL-Library.Word"
begin

section \<open>JavaScript strings\<close>

text \<open>
  A JavaScript string is a sequence of 16-bit code units.  The helper \<open>js\<close> writes an
  ASCII literal as such a sequence; code units outside ASCII are written as numerals.
\<close>

type_synonym jschar = "16 word"
type_synonym jsstring = "jschar list"

definition js :: "string \<Rightarrow> jsstring" where
  "js s = map (\<lambda>c. of_nat (of_char c)) s"

text \<open>
  \<open>String.prototype.trim\<close> strips the code units that ECMAScript calls WhiteSpace
  (TAB, VT, FF, SP, NBSP, ZWNBSP and the Unicode space separators) and LineTerminator
  (LF, CR, LS, PS) from both ends.
\<close>

definition isWhiteSpace :: "jschar \<Rightarrow> bool" where
  "isWhiteSpace c = (c \<in> set [0x0009, 0x000A, 0x000B, 0x000C, 0x000D, 0x0020, 0x00A0,
      0x1680, 0x2000, 0x2001, 0x2002, 0x2003, 0x2004, 0x2005, 0x2006, 0x2007, 0x2008,
      0x2009, 0x200A, 0x2028, 0x2029, 0x202F, 0x205F, 0x3000, 0xFEFF])"

definition trim :: "jsstring \<Rightarrow> jsstring" where
  "trim s = rev (dropWhile isWhiteSpace (rev (dropWhile isWhiteSpace s)))"

definition virgula :: jschar where
  "virgula = 0x002C"

text \<open>
  \<open>s.split(',')\<close>: the pieces of \<open>s\<close> between the commas, in order.  The result is
  never empty: a string without a comma (the empty string too) gives one piece.
\<close>

fun split_virgula :: "jsstring \<Rightarrow> jsstring list" where
  "split_virgula [] = [[]]"
| "split_virgula (c # cs) =
     (if c = virgula then [] # split_virgula cs
      else (case split_virgula cs of
              [] \<Rightarrow> [[c]]
            | t # ts \<Rightarrow> (c # t) # ts))"

text \<open>
  \<open>Number.prototype.toString\<close> on an integer-valued number in the range of
  \<open>Date.now()\<close>: the decimal digits, with a minus sign for a negative value.
\<close>

fun digitos :: "nat \<Rightarrow> jsstring" where
  "digitos n = (if n < 10 then [0x0030 + of_nat n]
                else digitos (n div 10) @ [0x0030 + of_nat (n mod 10)])"

declare digitos.simps [simp del]

definition toString :: "int \<Rightarrow> jsstring" where
  "toString n = (if n < 0 then 0x002D # digitos (nat (- n)) else digitos (nat n))"

section \<open>The application state\<close>

text \<open>
  A pot as \<open>adicionarVaso\<close> builds it: the object with the fields \<open>id\<close>, \<open>nome\<close>,
  \<open>local\<close> and \<open>flores\<close> (prefixed here, since \<open>id\<close> is a constant of HOL and
  \<open>flores\<close> is also the name of a state variable).
\<close>

record vaso =
  vaso_id :: jsstring
  vaso_nome :: jsstring
  vaso_local :: jsstring
  vaso_flores :: "jsstring list"

text \<open>The four \<open>useState\<close> variables of the component \<open>App\<close>.\<close>

record app =
  vasos :: "vaso list"
  nomeVaso :: jsstring
  localVaso :: jsstring
  flores :: jsstring

definition inicial :: app where
  "inicial = \<lparr>vasos = [], nomeVaso = [], localVaso = [], flores = []\<rparr>"

text \<open>The setters that the three text inputs call on every change.\<close>

definition setNomeVaso :: "jsstring \<Rightarrow> app \<Rightarrow> app" where
  "setNomeVaso x s = s\<lparr>nomeVaso := x\<rparr>"

definition setLocalVaso :: "jsstring \<Rightarrow> app \<Rightarrow> app" where
  "setLocalVaso x s = s\<lparr>localVaso := x\<rparr>"

definition setFlores :: "jsstring \<Rightarrow> app \<Rightarrow> app" where
  "setFlores x s = s\<lparr>flores := x\<rparr>"

text \<open>
  What a handler does besides updating the state: \<open>Alert.alert(title, message)\<close> or
  \<open>Keyboard.dismiss()\<close>.
\<close>

datatype efeito = Alert jsstring jsstring | KeyboardDismiss

definition atencao :: efeito where
  "atencao = Alert (js ''Aten'' @ [0x00E7, 0x00E3] @ js ''o'')
                   (js ''Por favor, preencha o nome e o local do vaso.'')"

section \<open>Adding a pot\<close>

text \<open>
  The object \<open>novoVaso\<close> of \<open>adicionarVaso\<close>.  The argument \<open>now\<close> is the value that
  \<open>Date.now()\<close> returns at the call.
\<close>

definition novoVaso :: "int \<Rightarrow> app \<Rightarrow> vaso" where
  "novoVaso now s =
     \<lparr>vaso_id = toString now,
      vaso_nome = nomeVaso s,
      vaso_local = localVaso s,
      vaso_flores = (if trim (flores s) \<noteq> [] then map trim (split_virgula (flores s))
                     else [])\<rparr>"

text \<open>
  \<open>adicionarVaso\<close>: with a blank name or place it shows the alert and returns at once;
  otherwise it puts \<open>novoVaso\<close> in front of the list, clears the three fields and
  dismisses the keyboard.
\<close>

definition adicionarVaso :: "int \<Rightarrow> app \<Rightarrow> efeito \<times> app" where
  "adicionarVaso now s =
     (if trim (nomeVaso s) = [] \<or> trim (localVaso s) = [] then (atencao, s)
      else (KeyboardDismiss,
            s\<lparr>vasos := novoVaso now s # vasos s,
              nomeVaso := [], localVaso := [], flores := []\<rparr>))"

section \<open>Removing a pot\<close>

text \<open>
  \<open>removerVaso\<close> opens a dialog with two buttons.  "Cancelar" has no handler; the
  handler of "Sim, Remover" keeps the pots whose id differs from the given one.
\<close>

datatype botao = Cancelar | SimRemover

definition removerVaso :: "jsstring \<Rightarrow> botao \<Rightarrow> app \<Rightarrow> app" where
  "removerVaso i b s =
     (case b of
        Cancelar \<Rightarrow> s
      | SimRemover \<Rightarrow> s\<lparr>vasos := filter (\<lambda>v. vaso_id v \<noteq> i) (vasos s)\<rparr>)"

section \<open>Sample sessions\<close>

text \<open>
  Concrete runs of the application, used to evaluate the handlers: a clock reading, forms
  as the user may have filled them, and the states that pressing the buttons leads to.
\<close>

definition instante :: int where
  "instante = 1730000000000"

definition form_vaso1 :: app where
  "form_vaso1 = setFlores (js ''Rosa, L'' @ [0x00ED] @ js ''rio , , Tulipa'')
                  (setLocalVaso (js ''Sala'') (setNomeVaso (js ''Vaso 1'') inicial))"

definition form_flores_em_branco :: app where
  "form_flores_em_branco = setFlores (js ''  '')
                  (setLocalVaso (js ''Sala'') (setNomeVaso (js ''Vaso 1'') inicial))"

definition form_sem_nome :: app where
  "form_sem_nome = setFlores (js ''Rosa'')
                  (setLocalVaso (js ''Sala'') (setNomeVaso (js ''  '') inicial))"

definition form_com_espacos :: app where
  "form_com_espacos = setLocalVaso (js '' Sala '') (setNomeVaso (js '' Vaso '') inicial)"

definition um_vaso :: app where
  "um_vaso = snd (adicionarVaso instante form_vaso1)"

definition form_vaso2 :: app where
  "form_vaso2 = setFlores (js ''Rosa'')
                  (setLocalVaso (js ''Varanda'') (setNomeVaso (js ''Vaso 2'') um_vaso))"

text \<open>The second pot is added while the clock still shows \<open>instante\<close>.\<close>

definition dois_vasos :: app where
  "dois_vasos = snd (adicionarVaso instante form_vaso2)"

definition tres_vasos :: app where
  "tres_vasos = snd (adicionarVaso (instante + 60000)
                  (setLocalVaso (js ''Quarto'') (setNomeVaso (js ''Vaso 3'') dois_vasos)))"

section \<open>Auxiliary facts\<close>

lemmas calcula = js_def trim_def isWhiteSpace_def virgula_def toString_def digitos.simps
  novoVaso_def adicionarVaso_def removerVaso_def atencao_def inicial_def
  setNomeVaso_def setLocalVaso_def setFlores_def instante_def
  form_vaso1_def form_flores_em_branco_def form_sem_nome_def form_com_espacos_def
  um_vaso_def form_vaso2_def dois_vasos_def tres_vasos_def

lemma split_virgula_not_Nil: "split_virgula s \<noteq> []"
  by (induction s) (auto split: list.splits)

lemma length_split_virgula: "length (split_virgula s) = Suc (count_list s virgula)"
proof (induction s)
  case Nil
  show ?case by simp
next
  case (Cons c cs)
  obtain t ts where "split_virgula cs = t # ts"
    using split_virgula_not_Nil [of cs] by (cases "split_virgula cs") auto
  with Cons show ?case by auto
qed

lemma last_dropWhile:
  assumes "xs \<noteq> []" and "\<not> P (last xs)"
  shows "dropWhile P xs \<noteq> [] \<and> last (dropWhile P xs) = last xs"
  using assms by (induction xs) auto

lemma trim_ends:
  assumes "trim s \<noteq> []"
  shows "\<not> isWhiteSpace (hd (trim s)) \<and> \<not> isWhiteSpace (last (trim s))"
proof -
  let ?a = "dropWhile isWhiteSpace s"
  let ?b = "dropWhile isWhiteSpace (rev ?a)"
  have a: "?a \<noteq> []"
  proof
    assume "?a = []"
    then have "trim s = []" by (auto simp: trim_def dest: set_dropWhileD)
    with assms show False by simp
  qed
  then have "\<not> isWhiteSpace (hd ?a)" by (rule hd_dropWhile)
  with a have l: "rev ?a \<noteq> []" "\<not> isWhiteSpace (last (rev ?a))"
    by (simp_all add: last_rev)
  from last_dropWhile [of "rev ?a" isWhiteSpace, OF l] have b: "?b \<noteq> []" and lb: "last ?b = hd ?a"
    using a by (simp_all add: last_rev)
  from b have "\<not> isWhiteSpace (hd ?b)" by (rule hd_dropWhile)
  moreover have "hd (trim s) = last ?b" "last (trim s) = hd ?b"
    using b by (simp_all add: trim_def hd_rev last_rev)
  ultimately show ?thesis
    using lb \<open>\<not> isWhiteSpace (hd ?a)\<close> by simp
qed

lemma trim_token:
  "t \<in> set (map trim ts) \<Longrightarrow> t = [] \<or> (\<not> isWhiteSpace (hd t) \<and> \<not> isWhiteSpace (last t))"
  using trim_ends by auto

lemma atencao_not_dismiss: "atencao \<noteq> KeyboardDismiss"
  by (simp add: atencao_def)

lemma filter_um:
  "length (filter P xs) = 1 \<Longrightarrow>
     \<exists>ys v zs. xs = ys @ v # zs \<and> P v \<and> filter (\<lambda>x. \<not> P x) xs = ys @ zs"
proof (induction xs)
  case Nil
  then show ?case by simp
next
  case (Cons x xs)
  show ?case
  proof (cases "P x")
    case True
    with Cons.prems have "filter P xs = []" by simp
    then have "filter (\<lambda>x. \<not> P x) xs = xs"
      by (simp add: filter_empty_conv)
    with True have "x # xs = [] @ x # xs \<and> P x \<and> filter (\<lambda>x. \<not> P x) (x # xs) = [] @ xs"
      by simp
    then show ?thesis by blast
  next
    case False
    with Cons.prems have "length (filter P xs) = 1" by simp
    from Cons.IH [OF this] obtain ys v zs
      where "xs = ys @ v # zs" "P v" "filter (\<lambda>x. \<not> P x) xs = ys @ zs" by blast
    with False have "x # xs = (x # ys) @ v # zs \<and> P v
        \<and> filter (\<lambda>x. \<not> P x) (x # xs) = (x # ys) @ zs"
      by simp
    then show ?thesis by blast
  qed
qed

lemma length_filter_partes:
  "length (filter (\<lambda>x. \<not> P x) xs) + length (filter P xs) = length xs"
  by (induction xs) auto

section \<open>Parsing the flowers field\<close>

text \<open>
  C1, as the specification states it, at its own example: the form
  ("Vaso 1", "Sala", "Rosa, Lirio , , Tulipa"), where the i of Lirio is the code unit
  0xED, does not store the three flowers Rosa, Lirio, Tulipa.  The piece between the second and the third comma is trimmed
  to the empty string and kept, so four tokens are stored.
\<close>

theorem flores_vazias_mantidas:
  "vaso_flores (hd (vasos (snd (adicionarVaso instante form_vaso1))))
     = [js ''Rosa'', js ''L'' @ [0x00ED] @ js ''rio'', [], js ''Tulipa'']
   \<and> vaso_flores (hd (vasos (snd (adicionarVaso instante form_vaso1))))
     \<noteq> [js ''Rosa'', js ''L'' @ [0x00ED] @ js ''rio'', js ''Tulipa'']
   \<and> [] \<in> set (vaso_flores (hd (vasos (snd (adicionarVaso instante form_vaso1)))))"
  by (simp add: calcula)

text \<open>
  C1 (amended): a successful add splits the flowers field on commas and trims each
  piece, discarding none: if the field trims to empty the stored list is empty;
  otherwise the stored list is the trimmed pieces in order, one more than the field has
  commas.  Every stored token is either empty or begins and ends with a character that
  is not white space, so no token is a non-empty run of white space.
\<close>

theorem adicionarVaso_flores:
  assumes "trim (nomeVaso s) \<noteq> []" and "trim (localVaso s) \<noteq> []"
  shows "(trim (flores s) = [] \<longrightarrow>
            vaso_flores (hd (vasos (snd (adicionarVaso now s)))) = [])
       \<and> (trim (flores s) \<noteq> [] \<longrightarrow>
            vaso_flores (hd (vasos (snd (adicionarVaso now s))))
              = map trim (split_virgula (flores s))
          \<and> length (vaso_flores (hd (vasos (snd (adicionarVaso now s)))))
              = Suc (count_list (flores s) virgula))
       \<and> (\<forall>t \<in> set (vaso_flores (hd (vasos (snd (adicionarVaso now s))))).
            t = [] \<or> (\<not> isWhiteSpace (hd t) \<and> \<not> isWhiteSpace (last t)))"
proof -
  from assms have v: "vaso_flores (hd (vasos (snd (adicionarVaso now s))))
      = (if trim (flores s) \<noteq> [] then map trim (split_virgula (flores s)) else [])"
    by (simp add: adicionarVaso_def novoVaso_def)
  show ?thesis
  proof (cases "trim (flores s) = []")
    case True
    with v show ?thesis by simp
  next
    case False
    with v have e: "vaso_flores (hd (vasos (snd (adicionarVaso now s))))
        = map trim (split_virgula (flores s))" by simp
    have "\<forall>t \<in> set (map trim (split_virgula (flores s))).
            t = [] \<or> (\<not> isWhiteSpace (hd t) \<and> \<not> isWhiteSpace (last t))"
      using trim_token by blast
    with False e show ?thesis
      by (simp add: length_split_virgula)
  qed
qed

theorem adicionarVaso_flores_witness:
  "trim (nomeVaso form_vaso1) \<noteq> [] \<and> trim (localVaso form_vaso1) \<noteq> []
   \<and> trim (flores form_vaso1) \<noteq> []
   \<and> vaso_flores (hd (vasos (snd (adicionarVaso instante form_vaso1))))
       = [js ''Rosa'', js ''L'' @ [0x00ED] @ js ''rio'', [], js ''Tulipa'']
   \<and> length (vaso_flores (hd (vasos (snd (adicionarVaso instante form_vaso1))))) = 4
   \<and> trim (nomeVaso form_flores_em_branco) \<noteq> []
   \<and> trim (localVaso form_flores_em_branco) \<noteq> []
   \<and> trim (flores form_flores_em_branco) = []
   \<and> flores form_flores_em_branco \<noteq> []
   \<and> vaso_flores (hd (vasos (snd (adicionarVaso instante form_flores_em_branco)))) = []"
proof -
  have a: "trim (nomeVaso form_vaso1) \<noteq> []" "trim (localVaso form_vaso1) \<noteq> []"
    by (simp_all add: calcula)
  have b: "trim (nomeVaso form_flores_em_branco) \<noteq> []"
    "trim (localVaso form_flores_em_branco) \<noteq> []"
    by (simp_all add: calcula)
  have c: "trim (flores form_vaso1) \<noteq> []" "trim (flores form_flores_em_branco) = []"
    "flores form_flores_em_branco \<noteq> []"
    by (simp_all add: calcula)
  have d: "map trim (split_virgula (flores form_vaso1))
      = [js ''Rosa'', js ''L'' @ [0x00ED] @ js ''rio'', [], js ''Tulipa'']"
    by (simp add: calcula)
  from adicionarVaso_flores [OF a, of instante] adicionarVaso_flores [OF b, of instante]
  show ?thesis
    using a b c d by simp
qed

section \<open>Identifiers\<close>

text \<open>
  C2 at a failing run.  From the initial state the user fills in the form and presses
  the button, fills it in again and presses the button again while \<open>Date.now()\<close>
  returns the same millisecond.  The second add succeeds, and the id it generates is the
  id of the record already in the catalogue: the two stored ids are equal.
\<close>

theorem id_repetido:
  "fst (adicionarVaso instante form_vaso2) = KeyboardDismiss
   \<and> vaso_id (hd (vasos (snd (adicionarVaso instante form_vaso2))))
       \<in> vaso_id ` set (vasos form_vaso2)
   \<and> map vaso_id (vasos (snd (adicionarVaso instante form_vaso2)))
       = [js ''1730000000000'', js ''1730000000000'']
   \<and> \<not> distinct (map vaso_id (vasos (snd (adicionarVaso instante form_vaso2))))"
  by (simp add: calcula)

section \<open>Validation\<close>

text \<open>
  C3: \<open>adicionarVaso\<close> refuses the form (shows the alert and returns) exactly when the
  name or the place is empty after trimming; what the flowers field holds never decides
  it; and when the form is refused the whole state, the catalogue included, is unchanged.
\<close>

theorem adicionarVaso_recusa:
  "(fst (adicionarVaso now s) = atencao)
      = (trim (nomeVaso s) = [] \<or> trim (localVaso s) = [])
   \<and> (fst (adicionarVaso now (setFlores f s)) = atencao)
      = (fst (adicionarVaso now s) = atencao)
   \<and> (fst (adicionarVaso now s) = atencao \<longrightarrow> snd (adicionarVaso now s) = s)"
  using atencao_not_dismiss
  by (simp add: adicionarVaso_def setFlores_def)

theorem adicionarVaso_recusa_witness:
  "(trim (nomeVaso form_sem_nome) = [] \<or> trim (localVaso form_sem_nome) = [])
   \<and> nomeVaso form_sem_nome \<noteq> []
   \<and> fst (adicionarVaso instante form_sem_nome) = atencao
   \<and> fst (adicionarVaso instante (setFlores [] form_sem_nome)) = atencao
   \<and> snd (adicionarVaso instante form_sem_nome) = form_sem_nome
   \<and> \<not> (trim (nomeVaso form_vaso1) = [] \<or> trim (localVaso form_vaso1) = [])
   \<and> fst (adicionarVaso instante form_vaso1) \<noteq> atencao
   \<and> fst (adicionarVaso instante (setFlores [] form_vaso1)) \<noteq> atencao"
proof -
  have a: "trim (nomeVaso form_sem_nome) = []" "nomeVaso form_sem_nome \<noteq> []"
    by (simp_all add: calcula)
  have b: "trim (nomeVaso form_vaso1) \<noteq> []" "trim (localVaso form_vaso1) \<noteq> []"
    by (simp_all add: calcula)
  from adicionarVaso_recusa [of instante form_sem_nome "[]"]
    adicionarVaso_recusa [of instante form_vaso1 "[]"]
  show ?thesis
    using a b by simp
qed

section \<open>Insertion\<close>

text \<open>
  C4: with a name and a place that are not blank, \<open>adicionarVaso\<close> makes the catalogue
  exactly one longer by putting the new record in front of the records that were there,
  which keep their content and order.  So after adding A and then B (the form filled in
  again in between) the catalogue reads B, A, followed by what it held before.
\<close>

theorem adicionarVaso_prepend:
  assumes "trim (nomeVaso s) \<noteq> []" and "trim (localVaso s) \<noteq> []"
  shows "length (vasos (snd (adicionarVaso t1 s))) = Suc (length (vasos s))
       \<and> vasos (snd (adicionarVaso t1 s)) = novoVaso t1 s # vasos s
       \<and> (trim nB \<noteq> [] \<and> trim lB \<noteq> [] \<longrightarrow>
            vasos (snd (adicionarVaso t2
               (setFlores fB (setLocalVaso lB (setNomeVaso nB (snd (adicionarVaso t1 s)))))))
            = novoVaso t2 \<lparr>vasos = [], nomeVaso = nB, localVaso = lB, flores = fB\<rparr>
              # novoVaso t1 s # vasos s)"
  using assms
  by (simp add: adicionarVaso_def novoVaso_def setFlores_def setLocalVaso_def
      setNomeVaso_def)

theorem adicionarVaso_prepend_witness:
  "trim (nomeVaso form_vaso1) \<noteq> [] \<and> trim (localVaso form_vaso1) \<noteq> []
   \<and> trim (js ''Vaso 2'') \<noteq> [] \<and> trim (js ''Varanda'') \<noteq> []
   \<and> length (vasos (snd (adicionarVaso instante form_vaso1))) = 1
   \<and> map vaso_nome (vasos (snd (adicionarVaso (instante + 60000)
        (setFlores (js ''Rosa'') (setLocalVaso (js ''Varanda'') (setNomeVaso (js ''Vaso 2'')
          (snd (adicionarVaso instante form_vaso1))))))))
      = [js ''Vaso 2'', js ''Vaso 1'']"
proof -
  have a: "trim (nomeVaso form_vaso1) \<noteq> []" "trim (localVaso form_vaso1) \<noteq> []"
    by (simp_all add: calcula)
  have b: "trim (js ''Vaso 2'') \<noteq> []" "trim (js ''Varanda'') \<noteq> []"
    by (simp_all add: calcula)
  have c: "vasos form_vaso1 = []" "nomeVaso form_vaso1 = js ''Vaso 1''"
    by (simp_all add: form_vaso1_def setFlores_def setLocalVaso_def setNomeVaso_def
        inicial_def)
  from adicionarVaso_prepend [OF a, of instante "js ''Vaso 2''" "js ''Varanda''"
      "instante + 60000" "js ''Rosa''"]
  show ?thesis
    using a b c by (simp add: novoVaso_def)
qed

text \<open>
  C9: the record that a successful add creates holds the name and the place exactly as
  they are in the form, untrimmed: only the validity check looks at the trimmed text.
\<close>

theorem adicionarVaso_nao_apara:
  assumes "trim (nomeVaso s) \<noteq> []" and "trim (localVaso s) \<noteq> []"
  shows "vaso_nome (hd (vasos (snd (adicionarVaso now s)))) = nomeVaso s
       \<and> vaso_local (hd (vasos (snd (adicionarVaso now s)))) = localVaso s"
  using assms by (simp add: adicionarVaso_def novoVaso_def)

theorem adicionarVaso_nao_apara_witness:
  "trim (nomeVaso form_com_espacos) \<noteq> [] \<and> trim (localVaso form_com_espacos) \<noteq> []
   \<and> vaso_nome (hd (vasos (snd (adicionarVaso instante form_com_espacos)))) = js '' Vaso ''
   \<and> vaso_local (hd (vasos (snd (adicionarVaso instante form_com_espacos)))) = js '' Sala ''
   \<and> trim (js '' Vaso '') = js ''Vaso'' \<and> js '' Vaso '' \<noteq> js ''Vaso''"
proof -
  have a: "trim (nomeVaso form_com_espacos) \<noteq> []"
    "trim (localVaso form_com_espacos) \<noteq> []"
    by (simp_all add: calcula)
  have b: "nomeVaso form_com_espacos = js '' Vaso ''"
    "localVaso form_com_espacos = js '' Sala ''"
    by (simp_all add: form_com_espacos_def setLocalVaso_def setNomeVaso_def inicial_def)
  have c: "trim (js '' Vaso '') = js ''Vaso''" "js '' Vaso '' \<noteq> js ''Vaso''"
    by (simp_all add: calcula)
  from adicionarVaso_nao_apara [OF a, of instante]
  show ?thesis
    using a b c by simp
qed

section \<open>The form after a submission\<close>

text \<open>
  C8: after a successful add the three fields of the form are the empty string; after a
  refused one each of the three fields holds what it held before.
\<close>

theorem adicionarVaso_campos:
  "(trim (nomeVaso s) \<noteq> [] \<and> trim (localVaso s) \<noteq> [] \<longrightarrow>
       nomeVaso (snd (adicionarVaso now s)) = []
     \<and> localVaso (snd (adicionarVaso now s)) = []
     \<and> flores (snd (adicionarVaso now s)) = [])
   \<and> (trim (nomeVaso s) = [] \<or> trim (localVaso s) = [] \<longrightarrow>
       nomeVaso (snd (adicionarVaso now s)) = nomeVaso s
     \<and> localVaso (snd (adicionarVaso now s)) = localVaso s
     \<and> flores (snd (adicionarVaso now s)) = flores s)"
  by (simp add: adicionarVaso_def)

theorem adicionarVaso_campos_witness:
  "trim (nomeVaso form_vaso1) \<noteq> [] \<and> trim (localVaso form_vaso1) \<noteq> []
   \<and> nomeVaso form_vaso1 \<noteq> [] \<and> localVaso form_vaso1 \<noteq> [] \<and> flores form_vaso1 \<noteq> []
   \<and> nomeVaso (snd (adicionarVaso instante form_vaso1)) = []
   \<and> localVaso (snd (adicionarVaso instante form_vaso1)) = []
   \<and> flores (snd (adicionarVaso instante form_vaso1)) = []
   \<and> (trim (nomeVaso form_sem_nome) = [] \<or> trim (localVaso form_sem_nome) = [])
   \<and> nomeVaso (snd (adicionarVaso instante form_sem_nome)) = js ''  ''
   \<and> localVaso (snd (adicionarVaso instante form_sem_nome)) = js ''Sala''
   \<and> flores (snd (adicionarVaso instante form_sem_nome)) = js ''Rosa''"
proof -
  have a: "trim (nomeVaso form_vaso1) \<noteq> []" "trim (localVaso form_vaso1) \<noteq> []"
    "nomeVaso form_vaso1 \<noteq> []" "localVaso form_vaso1 \<noteq> []" "flores form_vaso1 \<noteq> []"
    by (simp_all add: calcula)
  have b: "trim (nomeVaso form_sem_nome) = []"
    by (simp add: calcula)
  have c: "nomeVaso form_sem_nome = js ''  ''" "localVaso form_sem_nome = js ''Sala''"
    "flores form_sem_nome = js ''Rosa''"
    by (simp_all add: form_sem_nome_def setFlores_def setLocalVaso_def setNomeVaso_def
        inicial_def)
  from adicionarVaso_campos [of form_vaso1 instante]
    adicionarVaso_campos [of form_sem_nome instante]
  show ?thesis
    using a b c by simp
qed

section \<open>Removal\<close>

text \<open>
  While the ids of the catalogue are pairwise distinct, as the comments of the code
  intend ("ID unico", "chave unica"), a confirmed \<open>removerVaso\<close> of an id that is
  present makes the catalogue exactly one shorter and takes out that record and nothing
  else: the records before it and after it stay, in the same order.
\<close>

lemma filter_distinct_um:
  "distinct (map f xs) \<Longrightarrow> i \<in> f ` set xs \<Longrightarrow> length (filter (\<lambda>x. f x = i) xs) = 1"
proof (induction xs)
  case Nil
  then show ?case by simp
next
  case (Cons x xs)
  show ?case
  proof (cases "f x = i")
    case True
    with Cons.prems(1) have "i \<notin> f ` set xs" by simp
    then have "\<forall>y \<in> set xs. f y \<noteq> i" by blast
    then have "filter (\<lambda>x. f x = i) xs = []"
      by (simp add: filter_empty_conv)
    with True show ?thesis by simp
  next
    case False
    with Cons.prems have "distinct (map f xs)" "i \<in> f ` set xs" by auto
    from Cons.IH [OF this] False show ?thesis by simp
  qed
qed

lemma removerVaso_ids_distintos:
  assumes "distinct (map vaso_id (vasos s))" and "i \<in> vaso_id ` set (vasos s)"
  shows "Suc (length (vasos (removerVaso i SimRemover s))) = length (vasos s)
       \<and> (\<exists>antes v depois. vasos s = antes @ v # depois \<and> vaso_id v = i
            \<and> vasos (removerVaso i SimRemover s) = antes @ depois)"
proof -
  from assms have "length (filter (\<lambda>v. vaso_id v = i) (vasos s)) = 1"
    by (rule filter_distinct_um)
  from filter_um [OF this] obtain antes v depois
    where p: "vasos s = antes @ v # depois" "vaso_id v = i"
      "filter (\<lambda>v. vaso_id v \<noteq> i) (vasos s) = antes @ depois"
    by blast
  then have r: "vasos (removerVaso i SimRemover s) = antes @ depois"
    by (simp add: removerVaso_def)
  with p(1) have "Suc (length (vasos (removerVaso i SimRemover s))) = length (vasos s)"
    by simp
  with p r show ?thesis by blast
qed

text \<open>
  C5 at a failing run.  The catalogue \<open>dois_vasos\<close> is reached from the initial state
  by two adds within one millisecond, so its two records carry the same id.  It holds a
  record with the id 1730000000000, and one confirmed \<open>removerVaso\<close> with that id
  takes the length from two to zero, not to one: the other record goes as well.
\<close>

theorem removerVaso_dois_de_uma_vez:
  "hd (vasos dois_vasos) \<in> set (vasos dois_vasos)
   \<and> vaso_id (hd (vasos dois_vasos)) = js ''1730000000000''
   \<and> map vaso_nome (vasos dois_vasos) = [js ''Vaso 2'', js ''Vaso 1'']
   \<and> length (vasos dois_vasos) = 2
   \<and> vasos (removerVaso (js ''1730000000000'') SimRemover dois_vasos) = []
   \<and> length (vasos (removerVaso (js ''1730000000000'') SimRemover dois_vasos))
       \<noteq> length (vasos dois_vasos) - 1"
  by (simp add: calcula)

text \<open>
  C6: when no record of the catalogue has the given id, a confirmed \<open>removerVaso\<close>
  returns the state it was given: nothing is raised and nothing changes.
\<close>

theorem removerVaso_ausente:
  assumes "\<forall>v \<in> set (vasos s). vaso_id v \<noteq> i"
  shows "removerVaso i SimRemover s = s"
proof -
  from assms have "filter (\<lambda>v. vaso_id v \<noteq> i) (vasos s) = vasos s"
    by (simp add: filter_id_conv)
  then show ?thesis
    by (simp add: removerVaso_def)
qed

theorem removerVaso_ausente_witness:
  "map vaso_id (vasos um_vaso) = [js ''1730000000000'']
   \<and> js ''1730000000000'' \<noteq> js ''42''
   \<and> removerVaso (js ''42'') SimRemover um_vaso = um_vaso"
proof -
  have b: "map vaso_id (vasos um_vaso) = [js ''1730000000000'']"
    "js ''1730000000000'' \<noteq> js ''42''"
    by (simp_all add: calcula)
  have a: "\<forall>v \<in> set (vasos um_vaso). vaso_id v \<noteq> js ''42''"
    by (simp add: calcula)
  from removerVaso_ausente [OF a] show ?thesis
    using b by simp
qed

text \<open>
  C7: a confirmed \<open>removerVaso\<close> is idempotent: doing it twice with the same id leaves
  the state that doing it once leaves.
\<close>

theorem removerVaso_idempotente:
  "removerVaso i SimRemover (removerVaso i SimRemover s) = removerVaso i SimRemover s"
  by (simp add: removerVaso_def)

text \<open>
  C10: a confirmed \<open>removerVaso\<close> takes out every record that has the given id: none is
  left, the catalogue gets shorter by the number of records that had it, and the records
  with another id all stay.  With two or more records sharing the id, one call removes
  them all.
\<close>

theorem removerVaso_todos:
  "i \<notin> vaso_id ` set (vasos (removerVaso i SimRemover s))
   \<and> length (vasos (removerVaso i SimRemover s))
       + length (filter (\<lambda>v. vaso_id v = i) (vasos s)) = length (vasos s)
   \<and> set (vasos (removerVaso i SimRemover s)) = {v \<in> set (vasos s). vaso_id v \<noteq> i}"
  using length_filter_partes [of "\<lambda>v. vaso_id v = i" "vasos s"]
  by (auto simp: removerVaso_def)

theorem removerVaso_todos_witness:
  "length (filter (\<lambda>v. vaso_id v = js ''1730000000000'') (vasos tres_vasos)) = 2
   \<and> length (vasos tres_vasos) = 3
   \<and> length (vasos (removerVaso (js ''1730000000000'') SimRemover tres_vasos)) = 1
   \<and> js ''1730000000000''
       \<notin> vaso_id ` set (vasos (removerVaso (js ''1730000000000'') SimRemover tres_vasos))"
proof -
  have a: "length (filter (\<lambda>v. vaso_id v = js ''1730000000000'') (vasos tres_vasos)) = 2"
    by (simp add: calcula)
  have b: "length (vasos tres_vasos) = 3"
    by (simp add: calcula)
  from removerVaso_todos [of "js ''1730000000000''" tres_vasos]
  have c: "js ''1730000000000''
      \<notin> vaso_id ` set (vasos (removerVaso (js ''1730000000000'') SimRemover tres_vasos))"
    and d: "length (vasos (removerVaso (js ''1730000000000'') SimRemover tres_vasos))
      + length (filter (\<lambda>v. vaso_id v = js ''1730000000000'') (vasos tres_vasos))
      = length (vasos tres_vasos)"
    by blast+
  from d a b
  have "length (vasos (removerVaso (js ''1730000000000'') SimRemover tres_vasos)) = 1"
    by simp
  with a b c show ?thesis by blast
qed

end
